theory Spec2Isabelle
  imports Complex_Main
begin

section \<open>Exceptions\<close>

text \<open>
  Every exception the modelled Python code can raise is a value of this type; a function
  that may raise returns \<open>error + 'a\<close>, with \<open>Inl\<close> for the exception.
\<close>

datatype error =
    ValueError string
  | AssertionError string
  | AttributeError string
  | UnboundLocalError string
  | ZeroDivisionError
  | RuntimeError
  | TypeError

section \<open>Subsampling layers (\<^verbatim>\<open>models/seq2seq/encoders/subsampling.py\<close>)\<close>

text \<open>
  A tensor of shape \<open>[B, T, F]\<close> is a list of \<open>B\<close> sequences, each a list of \<open>T\<close> frames,
  each a list of \<open>F\<close> features; tensors are rectangular. The element type is left open:
  the learned layers of the framework (\<^verbatim>\<open>nn.Linear\<close>, \<^verbatim>\<open>nn.Conv1d\<close>, \<^verbatim>\<open>nn.MaxPool1d\<close>,
  \<^verbatim>\<open>torch.relu\<close>) are parameters of the model. A length vector \<^verbatim>\<open>xlens\<close> is a list of
  integers.
\<close>

type_synonym 'a tensor = "'a list list list"

text \<open>\<^verbatim>\<open>torch.cat(ts, dim=-1)\<close> on a non-empty list of 3-dimensional tensors.\<close>

definition cat_last :: "'a tensor list \<Rightarrow> 'a tensor" where
  "cat_last ts = map (\<lambda>rows. map concat (transpose rows)) (transpose ts)"

subsection \<open>ConcatSubsampler\<close>

text \<open>
  \<^verbatim>\<open>ConcatSubsampler.forward\<close>. \<open>proj_relu\<close> stands for \<^verbatim>\<open>torch.relu(self.proj(.))\<close> on one
  frame. After \<^verbatim>\<open>xs.transpose(1, 0)\<close> the tensor is time-major; for every \<open>t\<close> with
  \<open>(t + 1) % f = 0\<close> the slices \<^verbatim>\<open>xs[t - r:t - r + 1]\<close>, \<open>r = f - 1, ..., 0\<close>, are
  concatenated on the feature axis, and the groups are concatenated on the time axis.
  \<^verbatim>\<open>torch.cat\<close> raises on an empty list, and \<open>(t + 1) % 0\<close> raises.
\<close>

definition ConcatSubsampler_forward ::
  "('a list \<Rightarrow> 'a list) \<Rightarrow> int \<Rightarrow> 'a tensor \<Rightarrow> int list \<Rightarrow> error + ('a tensor \<times> int list)" where
  "ConcatSubsampler_forward proj_relu subsampling_factor xs xlens =
     (if subsampling_factor = 1 then Inr (xs, xlens)
      else
        let xsT = transpose xs;
            rs = rev [0..<nat subsampling_factor];
            ts = filter (\<lambda>t. (int t + 1) mod subsampling_factor = 0) [0..<length xsT]
        in if subsampling_factor = 0 \<and> 0 < length xsT then Inl ZeroDivisionError
           else if ts = [] \<or> rs = [] then Inl RuntimeError
           else
             let groups = map (\<lambda>t. cat_last (map (\<lambda>r. take 1 (drop (t - r) xsT)) rs)) ts;
                 ys = map (map proj_relu) (transpose (concat groups))
             in Inr (ys, map (\<lambda>i. max 1 (i div subsampling_factor)) xlens))"

subsection \<open>DropSubsampler\<close>

text \<open>
  \<^verbatim>\<open>DropSubsampler.forward\<close>. The slice \<^verbatim>\<open>xs[:, ::f, :]\<close> keeps the frames \<open>0, f, 2f, ...\<close>
  of every sample; the framework refuses a step below 1 with a \<^verbatim>\<open>ValueError\<close> (the
  message is the framework's). The new length is
  \<^verbatim>\<open>max(1, math.ceil(i.item() / f))\<close>: a true division followed by a ceiling. The lengths
  come from a 32-bit integer tensor, and on such values the correctly rounded quotient of
  two integers is an integer only when the exact quotient is, so the ceiling of the exact
  quotient is what the code computes.
\<close>

definition DropSubsampler_forward ::
  "int \<Rightarrow> 'a tensor \<Rightarrow> int list \<Rightarrow> error + ('a tensor \<times> int list)" where
  "DropSubsampler_forward subsampling_factor xs xlens =
     (if subsampling_factor = 1 then Inr (xs, xlens)
      else if subsampling_factor \<le> 0 then Inl (ValueError ''step must be greater than zero'')
      else
        Inr (map (\<lambda>x. map (\<lambda>t. x ! t)
                    (filter (\<lambda>t. int t mod subsampling_factor = 0) [0..<length x])) xs,
             map (\<lambda>i. max 1 \<lceil>real_of_int i / real_of_int subsampling_factor\<rceil>) xlens))"

subsection \<open>Conv1dSubsampler and MaxpoolSubsampler\<close>


record maxpool1d_args =
  pool_kernel_size :: int
  pool_stride :: int
  pool_padding :: int
  ceil_mode :: bool

text \<open>
  A subsampler object holds its factor and the layers its constructor created; the layers
  exist only when the factor exceeds 1. \<open>'c\<close> and \<open>'p\<close> are the framework's convolution
  and pooling layers.
\<close>

record ('c, 'p) Conv1dSubsampler =
  conv_subsampling_factor :: int
  conv_conv1d :: "'c option"
  conv_pool :: "'p option"

record 'p MaxpoolSubsampler =
  maxpool_subsampling_factor :: int
  maxpool_pool :: "'p option"


text \<open>
  \<^verbatim>\<open>Conv1dSubsampler.forward\<close>. \<open>relu_conv1d c\<close> stands for
  \<^verbatim>\<open>torch.relu(self.conv1d(.))\<close>, \<open>pool_call p\<close> for \<^verbatim>\<open>self.pool(.)\<close>, and
  \<open>update_lens_1d\<close> for the helper of that name in \<^verbatim>\<open>encoders/conv.py\<close>;
  \<^verbatim>\<open>transpose(2, 1)\<close> swaps the time and feature axes of every sample.
\<close>

definition Conv1dSubsampler_forward ::
  "('c \<Rightarrow> 'a tensor \<Rightarrow> 'a tensor) \<Rightarrow> ('p \<Rightarrow> 'a tensor \<Rightarrow> 'a tensor) \<Rightarrow>
   (int list \<Rightarrow> 'p \<Rightarrow> int list) \<Rightarrow>
   ('c, 'p) Conv1dSubsampler \<Rightarrow> 'a tensor \<Rightarrow> int list \<Rightarrow> error + ('a tensor \<times> int list)" where
  "Conv1dSubsampler_forward relu_conv1d pool_call update_lens_1d self xs xlens =
     (if conv_subsampling_factor self = 1 then Inr (xs, xlens)
      else
        (case conv_conv1d self of
           None \<Rightarrow> Inl (AttributeError ''conv1d'')
         | Some c \<Rightarrow>
             (case conv_pool self of
                None \<Rightarrow> Inl (AttributeError ''pool'')
              | Some p \<Rightarrow>
                  Inr (map transpose (pool_call p (relu_conv1d c (map transpose xs))),
                       update_lens_1d xlens p))))"

text \<open>\<^verbatim>\<open>MaxpoolSubsampler.__init__\<close> and \<^verbatim>\<open>MaxpoolSubsampler.forward\<close>.\<close>

definition MaxpoolSubsampler_init ::
  "(maxpool1d_args \<Rightarrow> error + 'p) \<Rightarrow> int \<Rightarrow> error + 'p MaxpoolSubsampler" where
  "MaxpoolSubsampler_init nn_MaxPool1d subsampling_factor =
     (if subsampling_factor > 1 then
        (case nn_MaxPool1d \<lparr>pool_kernel_size = subsampling_factor,
                             pool_stride = subsampling_factor,
                             pool_padding = 0, ceil_mode = True\<rparr> of
           Inl e \<Rightarrow> Inl e
         | Inr p \<Rightarrow> Inr \<lparr>maxpool_subsampling_factor = subsampling_factor,
                          maxpool_pool = Some p\<rparr>)
      else Inr \<lparr>maxpool_subsampling_factor = subsampling_factor, maxpool_pool = None\<rparr>)"

definition MaxpoolSubsampler_forward ::
  "('p \<Rightarrow> 'a tensor \<Rightarrow> 'a tensor) \<Rightarrow> (int list \<Rightarrow> 'p \<Rightarrow> int list) \<Rightarrow>
   'p MaxpoolSubsampler \<Rightarrow> 'a tensor \<Rightarrow> int list \<Rightarrow> error + ('a tensor \<times> int list)" where
  "MaxpoolSubsampler_forward pool_call update_lens_1d self xs xlens =
     (if maxpool_subsampling_factor self = 1 then Inr (xs, xlens)
      else
        (case maxpool_pool self of
           None \<Rightarrow> Inl (AttributeError ''pool'')
         | Some p \<Rightarrow>
             Inr (map transpose (pool_call p (map transpose xs)), update_lens_1d xlens p)))"

subsection \<open>The framework's layer constructors\<close>



section \<open>The training driver (\<^verbatim>\<open>bin/asr/train_main.py\<close>)\<close>

subsection \<open>Configuration\<close>

text \<open>
  The fields of \<^verbatim>\<open>args\<close> that \<^verbatim>\<open>train\<close> reads for its bookkeeping. Integers are
  Python's unbounded integers; \<open>learning_rate\<close> is \<^verbatim>\<open>float(args.learning_rate)\<close> and
  the evaluation metrics are error rates, both taken as real numbers.
\<close>

record args =
  ngpus :: int
  batch_size :: int
  print_step :: int
  corpus :: string
  label_type :: string
  eval_sets :: "string list"
  saved_model :: "string option"
  learning_rate :: real
  eval_start_epoch :: int
  not_improved_patient_epoch :: int
  convert_to_sgd_epoch :: int
  num_epochs :: int

text \<open>Lines 54 to 57: the adjustment made before anything else is built.\<close>

definition train_prologue :: "args \<Rightarrow> args" where
  "train_prologue a =
     (if ngpus a > 1
      then a\<lparr>batch_size := batch_size a - 10, print_step := print_step a div ngpus a\<rparr>
      else a)"

text \<open>Python's \<^verbatim>\<open>sub in s\<close> on strings: \<open>sub\<close> occurs in \<open>s\<close> as a contiguous block.\<close>

fun str_in :: "string \<Rightarrow> string \<Rightarrow> bool" where
  "str_in sub [] = (sub = [])"
| "str_in sub (c # cs) = (take (length sub) (c # cs) = sub \<or> str_in sub cs)"

text \<open>
  The four-way branch on \<^verbatim>\<open>args.label_type\<close> (lines 356 to 370 and again 390 to 403), in
  the order of the source; \<open>None\<close> is the final \<^verbatim>\<open>else\<close>, which raises.
\<close>

datatype evaluator = Eval_word | Eval_wordpiece | Eval_char | Eval_phone

definition select_evaluator :: "string \<Rightarrow> evaluator option" where
  "select_evaluator lt =
     (if lt = ''word'' then Some Eval_word
      else if lt = ''wordpiece'' then Some Eval_wordpiece
      else if str_in ''char'' lt then Some Eval_char
      else if str_in ''phone'' lt then Some Eval_phone
      else None)"

text \<open>Lines 104 to 115: the evaluation sets that are kept.\<close>

definition built_eval_sets :: "args \<Rightarrow> string list" where
  "built_eval_sets a =
     filter (\<lambda>x. \<not> (str_in ''phone'' (label_type a) \<and> corpus a \<noteq> ''timit'')) (eval_sets a)"

subsection \<open>State, collaborators and effects\<close>

text \<open>
  The local variables of \<^verbatim>\<open>train\<close> that survive an iteration of the loop, and a trace of
  the calls made on the collaborators, oldest first.
\<close>

datatype action =
    Update
  | Report int
  | Reporter_epoch
  | Save_checkpoint int int real real
  | Eval_dev evaluator
  | Decay_lr int real
  | Eval_test evaluator string
  | Set_optimizer_sgd real

record state =
  epoch :: int
  step :: int
  cur_learning_rate :: real
  metric_dev_best :: real
  not_improved_epoch :: int
  trace :: "action list"

text \<open>
  What the collaborators return during one iteration of the loop: the flag of
  \<^verbatim>\<open>train_set.next()\<close>, the metric the evaluator returns if it is called, and the
  learning rate \<^verbatim>\<open>lr_controller.decay_lr\<close> returns if it is called.
\<close>

record event =
  is_new_epoch :: bool
  metric_dev :: real
  decayed_lr :: real

datatype exit = Early_stop | Max_epoch

datatype outcome = Continue state | Break exit state | Raise error state

fun state_of :: "outcome \<Rightarrow> state" where
  "state_of (Continue s) = s"
| "state_of (Break x s) = s"
| "state_of (Raise e s) = s"

definition emit :: "action \<Rightarrow> state \<Rightarrow> state" where
  "emit x s = s\<lparr>trace := trace s @ [x]\<rparr>"

subsection \<open>The loop body\<close>

text \<open>
  Lines 389 to 403: decoding the evaluation sets after a new best score. In the
  character branch the log line has three conversion specifiers and two arguments, so
  formatting it raises after the first set is decoded.
\<close>

fun eval_tests :: "evaluator \<Rightarrow> string list \<Rightarrow> state \<Rightarrow> error option \<times> state" where
  "eval_tests ev [] s = (None, s)"
| "eval_tests ev (x # xs) s =
     (let s' = emit (Eval_test ev x) s
      in if ev = Eval_char then (Some TypeError, s') else eval_tests ev xs s')"

text \<open>Lines 354 to 431: the branch taken once \<open>epoch \<ge> eval_start_epoch\<close>.\<close>

definition evaluate :: "args \<Rightarrow> event \<Rightarrow> state \<Rightarrow> outcome" where
  "evaluate a e s =
     (case select_evaluator (label_type a) of
        None \<Rightarrow> Raise (ValueError (label_type a)) s
      | Some ev \<Rightarrow>
          let s1 = emit (Eval_dev ev) s;
              r = (if metric_dev e < metric_dev_best s1 then
                     let s2 = s1\<lparr>metric_dev_best := metric_dev e, not_improved_epoch := 0\<rparr>;
                         s3 = emit (Decay_lr (epoch s2) (metric_dev e))
                                (s2\<lparr>cur_learning_rate := decayed_lr e\<rparr>);
                         s4 = emit (Save_checkpoint (epoch s3) (step s3)
                                      (cur_learning_rate s3) (metric_dev_best s3)) s3
                     in eval_tests ev (built_eval_sets a) s4
                   else
                     let s2 = emit (Decay_lr (epoch s1) (metric_dev e))
                                (s1\<lparr>cur_learning_rate := decayed_lr e\<rparr>)
                     in (None, s2\<lparr>not_improved_epoch := not_improved_epoch s2 + 1\<rparr>))
          in (case r of
                (Some err, s') \<Rightarrow> Raise err s'
              | (None, s') \<Rightarrow>
                  if not_improved_epoch s' = not_improved_patient_epoch a
                  then Break Early_stop s'
                  else if epoch s' = convert_to_sgd_epoch a
                  then Continue (emit (Set_optimizer_sgd (learning_rate a)) s')
                  else Continue s'))"

text \<open>Lines 342 to 443: the work at an epoch boundary.\<close>

definition epoch_end :: "args \<Rightarrow> event \<Rightarrow> state \<Rightarrow> outcome" where
  "epoch_end a e s =
     (let s1 = emit Reporter_epoch s;
          r = (if epoch s1 < eval_start_epoch a
               then Continue (emit (Save_checkpoint (epoch s1) (step s1)
                                      (cur_learning_rate s1) (metric_dev_best s1)) s1)
               else evaluate a e s1)
      in (case r of
            Continue s2 \<Rightarrow>
              if epoch s2 = num_epochs a then Break Max_epoch s2
              else Continue (s2\<lparr>epoch := epoch s2 + 1\<rparr>)
          | other \<Rightarrow> other))"

text \<open>
  Lines 305 to 443: one iteration of \<^verbatim>\<open>while True\<close>. \<open>(step + 1) % args.print_step\<close>
  raises when \<open>print_step\<close> is 0.
\<close>

definition train_iter :: "args \<Rightarrow> event \<Rightarrow> state \<Rightarrow> outcome" where
  "train_iter a e s =
     (let s1 = emit Update s
      in if print_step a = 0 then Raise ZeroDivisionError s1
         else
           let s2 = (if (step s1 + 1) mod print_step a = 0 then emit (Report (step s1)) s1
                     else s1);
               s3 = s2\<lparr>step := step s2 + ngpus a\<rparr>
           in if is_new_epoch e then epoch_end a e s3 else Continue s3)"

text \<open>
  The loop itself, driven by what the collaborators return in each iteration.
  \<open>Continue\<close> at the end of the list means that the loop is still running after these
  iterations; \<open>Break\<close> and \<open>Raise\<close> end it.
\<close>

fun train_loop :: "args \<Rightarrow> event list \<Rightarrow> state \<Rightarrow> outcome" where
  "train_loop a [] s = Continue s"
| "train_loop a (e # es) s =
     (case train_iter a e s of
        Continue s' \<Rightarrow> train_loop a es s'
      | other \<Rightarrow> other)"

text \<open>Lines 223 to 225 and 300: the variables as the loop finds them.\<close>

definition init_state :: "args \<Rightarrow> state" where
  "init_state a =
     \<lparr>epoch = 1, step = 0, cur_learning_rate = learning_rate a, metric_dev_best = 100,
      not_improved_epoch = 0, trace = []\<rparr>"

text \<open>
  \<^verbatim>\<open>train\<close>: the prologue, the initialisation (made only when \<^verbatim>\<open>args.saved_model\<close> is
  \<^verbatim>\<open>None\<close>; otherwise line 265 reads \<^verbatim>\<open>epoch\<close> unbound) and the loop. The datasets
  and the model built in between (lines 69 to 135) come from classes that are not among
  the sources; here their constructors return.
\<close>

definition train :: "args \<Rightarrow> event list \<Rightarrow> outcome" where
  "train a0 es =
     (let a = train_prologue a0
      in if saved_model a \<noteq> None then Raise (UnboundLocalError ''epoch'') (init_state a)
         else train_loop a es (init_state a))"



text \<open>Counters read off the trace.\<close>

fun is_checkpoint :: "action \<Rightarrow> bool" where
  "is_checkpoint (Save_checkpoint ep st lr best) = True"
| "is_checkpoint x = False"

fun sgd_lr :: "action \<Rightarrow> real list" where
  "sgd_lr (Set_optimizer_sgd lr) = [lr]"
| "sgd_lr x = []"

definition checkpoints :: "state \<Rightarrow> nat" where
  "checkpoints s = length (filter is_checkpoint (trace s))"

definition sgd_switches :: "state \<Rightarrow> real list" where
  "sgd_switches s = concat (map sgd_lr (trace s))"

definition updates :: "state \<Rightarrow> int" where
  "updates s = int (length (filter (\<lambda>x. x = Update) (trace s)))"

text \<open>How an outcome ended: the \<^verbatim>\<open>break\<close> taken, or the exception raised.\<close>

fun exit_of :: "outcome \<Rightarrow> exit option" where
  "exit_of (Break x s) = Some x"
| "exit_of r = None"

fun error_of :: "outcome \<Rightarrow> error option" where
  "error_of (Raise err s) = Some err"
| "error_of r = None"

text \<open>
  The configurations in which the log line of line 398 is reached after a new best
  score: the character branch with at least one evaluation set.
\<close>

definition test_log_fails :: "args \<Rightarrow> bool" where
  "test_log_fails a =
     (select_evaluator (label_type a) = Some Eval_char \<and> built_eval_sets a \<noteq> [])"

subsection \<open>A sample configuration\<close>

text \<open>A single-device word-level configuration and an event, used in the examples below.\<close>

definition example_args :: args where
  "example_args =
     \<lparr>ngpus = 1, batch_size = 32, print_step = 100, corpus = ''csj'', label_type = ''word'',
      eval_sets = [], saved_model = None, learning_rate = 1 / 1000, eval_start_epoch = 1,
      not_improved_patient_epoch = 5, convert_to_sgd_epoch = 20, num_epochs = 25\<rparr>"

definition example_event :: "bool \<Rightarrow> real \<Rightarrow> event" where
  "example_event b m = \<lparr>is_new_epoch = b, metric_dev = m, decayed_lr = 1 / 1000\<rparr>"

section \<open>Properties of the subsampling layers\<close>

subsection \<open>Arithmetic of the length rules\<close>

lemma concat_groups_nonempty:
  assumes "1 < f" and "f \<le> int n"
  shows "filter (\<lambda>t. (int t + 1) mod f = 0) [0..<n] \<noteq> []"
proof -
  define t where "t = nat f - 1"
  have t: "int t + 1 = f" using assms by (simp add: t_def)
  have "t \<in> set [0..<n]" using assms by (simp add: t_def)
  moreover have "(int t + 1) mod f = 0" by (simp add: t)
  ultimately have "t \<in> set (filter (\<lambda>t. (int t + 1) mod f = 0) [0..<n])" by simp
  then show ?thesis by (metis empty_iff list.set(1))
qed

lemma concat_len_rule:
  assumes "1 < (f::int)"
  shows "max 1 (i div f) = (if f \<le> i then i div f else 1)"
proof (cases "f \<le> i")
  case True
  then have "0 < i div f" using assms by (simp add: pos_imp_zdiv_pos_iff)
  then show ?thesis using True by simp
next
  case False
  have "i div f \<le> 0"
  proof (cases "0 \<le> i")
    case True
    then have "i div f = 0" using False by (simp add: div_pos_pos_trivial)
    then show ?thesis by simp
  next
    case False
    then have "i div f < 0" using assms by (simp add: div_neg_pos_less0)
    then show ?thesis by simp
  qed
  then show ?thesis using False by simp
qed

lemma ceiling_div_int:
  assumes "0 < (f::int)"
  shows "\<lceil>real_of_int i / real_of_int f\<rceil> = - ((- i) div f)"
proof -
  have "\<lceil>real_of_int i / real_of_int f\<rceil> = - \<lfloor>- (real_of_int i / real_of_int f)\<rfloor>"
    by (simp add: ceiling_def)
  also have "- (real_of_int i / real_of_int f) = real_of_int (- i) / real_of_int f" by simp
  also have "\<lfloor>real_of_int (- i) / real_of_int f\<rfloor> = (- i) div f"
    by (rule floor_divide_of_int_eq)
  finally show ?thesis .
qed

subsection \<open>ConcatSubsampler: the length rule\<close>

text \<open>
  Claim C1 says that for every factor \<open>f > 1\<close> and every input length at least 1 the
  concatenation subsampler returns \<open>floor(xlens[i] / f)\<close>. The code computes
  \<^verbatim>\<open>max(1, i.item() // f)\<close>: a sample shorter than the factor keeps length 1 where the
  floor is 0. With factor 2 and lengths 4 and 1 the result is 2 and 1.
\<close>

theorem ConcatSubsampler_floor_counterexample:
  "ConcatSubsampler_forward (\<lambda>x. x) 2 [[[1::int],[2],[3],[4]], [[5],[0],[0],[0]]] [4, 1]
     = Inr ([[[1, 2], [3, 4]], [[5, 0], [0, 0]]], [2, 1])
   \<and> [2, 1] \<noteq> map (\<lambda>i. i div 2) [4, 1::int]"
  by code_simp

text \<open>
  Claim C1, amended: for every factor \<open>f > 1\<close> and every batch whose time axis holds at
  least \<open>f\<close> frames, \<^verbatim>\<open>ConcatSubsampler.forward\<close> returns the length vector with
  \<open>xlens'[i] = floor(xlens[i] / f)\<close> when \<open>xlens[i] \<ge> f\<close> (the trailing incomplete group is
  dropped, never rounded up) and \<open>xlens'[i] = 1\<close> when \<open>xlens[i] < f\<close>; length 7 with
  factor 2 gives 3.
\<close>

theorem ConcatSubsampler_forward_lengths:
  assumes "1 < f" and "f \<le> int (length (transpose xs))"
  shows "\<exists>ys. ConcatSubsampler_forward proj_relu f xs xlens =
            Inr (ys, map (\<lambda>i. if f \<le> i then i div f else 1) xlens)"
proof -
  have ne: "filter (\<lambda>t. (int t + 1) mod f = 0) [0..<length (transpose xs)] \<noteq> []"
    using assms by (rule concat_groups_nonempty)
  have rs: "[0..<nat f] \<noteq> []" using assms by simp
  have "map (\<lambda>i. max 1 (i div f)) xlens = map (\<lambda>i. if f \<le> i then i div f else 1) xlens"
    using assms(1) by (simp add: concat_len_rule)
  then show ?thesis using assms ne rs
    by (simp add: ConcatSubsampler_forward_def Let_def)
qed

theorem ConcatSubsampler_forward_lengths_witness:
  "(1::int) < 2 \<and> (2::int) \<le> int (length (transpose [[[0::int],[1],[2],[3],[4],[5],[6]]])) \<and>
   (\<exists>ys. ConcatSubsampler_forward (\<lambda>x. x) 2 [[[0::int],[1],[2],[3],[4],[5],[6]]] [7]
            = Inr (ys, [3]))"
  using ConcatSubsampler_forward_lengths
          [of 2 "[[[0::int],[1],[2],[3],[4],[5],[6]]]" "\<lambda>x. x" "[7]"]
  by simp

subsection \<open>DropSubsampler: the length rule\<close>

text \<open>
  Claim C7: for every factor \<open>f > 1\<close>, \<^verbatim>\<open>DropSubsampler.forward\<close> returns a length vector
  of the same size as its input in which entry \<open>i\<close> is \<open>max(1, ceil(xlens[i] / f))\<close>, a
  function of \<open>xlens[i]\<close> alone; in integer arithmetic the ceiling is \<open>- ((- L) div f)\<close>.
  Factor 3 on the lengths 1, 2, 3, 4 gives 1, 1, 1, 2.
\<close>

theorem DropSubsampler_forward_lengths:
  assumes "1 < f"
  shows "\<exists>ys ls. DropSubsampler_forward f xs xlens = Inr (ys, ls) \<and>
           length ls = length xlens \<and>
           (\<forall>i<length xlens.
              ls ! i = max 1 \<lceil>real_of_int (xlens ! i) / real_of_int f\<rceil> \<and>
              ls ! i = max 1 (- ((- (xlens ! i)) div f)))"
proof -
  have f: "0 < f" using assms by simp
  show ?thesis using assms
    by (simp add: DropSubsampler_forward_def ceiling_div_int [OF f])
qed

theorem DropSubsampler_forward_lengths_witness:
  "(1::int) < 3 \<and>
   DropSubsampler_forward 3 [[[1::int],[2],[3],[4]]] [1, 2, 3, 4] = Inr ([[[1],[4]]], [1, 1, 1, 2])"
proof -
  have h: "(1::int) < 3" by simp
  from DropSubsampler_forward_lengths [OF h, of "[[[1::int],[2],[3],[4]]]" "[1, 2, 3, 4]"]
  obtain ys ls where r: "DropSubsampler_forward 3 [[[1::int],[2],[3],[4]]] [1, 2, 3, 4] = Inr (ys, ls)"
    and len: "length ls = length [1, 2, 3, 4::int]"
    and nth: "\<forall>i<length [1, 2, 3, 4::int]. 
       ls ! i = max 1 \<lceil>real_of_int ([1, 2, 3, 4] ! i) / real_of_int 3\<rceil> \<and>
       ls ! i = max 1 (- ((- ([1, 2, 3, 4::int] ! i)) div 3))"
    by blast
  have "ls ! 0 = 1" "ls ! 1 = 1" "ls ! 2 = 1" "ls ! 3 = 2" using nth by simp_all
  then have ls: "ls = [1, 1, 1, 2]" using len
    by (auto simp: list_eq_iff_nth_eq nth_Cons' less_Suc_eq numeral_2_eq_2 numeral_3_eq_3)
  have "ys = [[[1],[4]]]" using r by (simp add: DropSubsampler_forward_def)
  then show ?thesis using r ls h by simp
qed

subsection \<open>Factor 1 is the identity\<close>

text \<open>
  Claim C8: each of the four subsamplers (concat, conv1d, drop, maxpool) configured with
  factor 1 returns the pair \<open>(xs, xlens)\<close> it was given, for every input batch and whatever
  its layers are.
\<close>

theorem subsamplers_identity_at_factor_1:
  "ConcatSubsampler_forward proj_relu 1 xs xlens = Inr (xs, xlens) \<and>
   Conv1dSubsampler_forward relu_conv1d pool_call update_lens_1d
     (self_c\<lparr>conv_subsampling_factor := 1\<rparr>) xs xlens = Inr (xs, xlens) \<and>
   DropSubsampler_forward 1 xs xlens = Inr (xs, xlens) \<and>
   MaxpoolSubsampler_forward pool_call update_lens_1d
     (self_m\<lparr>maxpool_subsampling_factor := 1\<rparr>) xs xlens = Inr (xs, xlens)"
  by (simp add: ConcatSubsampler_forward_def Conv1dSubsampler_forward_def
      DropSubsampler_forward_def MaxpoolSubsampler_forward_def)

theorem subsamplers_identity_at_factor_1_witness:
  "ConcatSubsampler_forward (\<lambda>x. x) 1 [[[1::int], [2], [3]]] [3] = Inr ([[[1], [2], [3]]], [3]) \<and>
   Conv1dSubsampler_forward (\<lambda>(c::unit) x. x) (\<lambda>(p::unit) x. x) (\<lambda>ls p. ls)
     \<lparr>conv_subsampling_factor = 1, conv_conv1d = None, conv_pool = None\<rparr>
     [[[1::int], [2], [3]]] [3] = Inr ([[[1], [2], [3]]], [3]) \<and>
   DropSubsampler_forward 1 [[[1::int], [2], [3]]] [3] = Inr ([[[1], [2], [3]]], [3]) \<and>
   MaxpoolSubsampler_forward (\<lambda>(p::unit) x. x) (\<lambda>ls p. ls)
     \<lparr>maxpool_subsampling_factor = 1, maxpool_pool = None\<rparr>
     [[[1::int], [2], [3]]] [3] = Inr ([[[1], [2], [3]]], [3])"
  using subsamplers_identity_at_factor_1
          [of "\<lambda>x. x" "[[[1::int], [2], [3]]]" "[3]"
              "\<lambda>(c::unit) x. x" "\<lambda>(p::unit) x. x" "\<lambda>ls p. ls"
              "\<lparr>conv_subsampling_factor = 1, conv_conv1d = None, conv_pool = None\<rparr>"
              "\<lparr>maxpool_subsampling_factor = 1, maxpool_pool = None\<rparr>"]
  by simp

subsection \<open>Conv1dSubsampler: the kernel size check\<close>




section \<open>Properties of the training driver\<close>

subsection \<open>What one iteration does\<close>

text \<open>
  The effect of each part of the loop body on the variables and on the counters read off
  the trace, one fact per lemma.
\<close>

lemma emit_fields [simp]:
  "epoch (emit x s) = epoch s" "step (emit x s) = step s"
  "cur_learning_rate (emit x s) = cur_learning_rate s"
  "metric_dev_best (emit x s) = metric_dev_best s"
  "not_improved_epoch (emit x s) = not_improved_epoch s"
  "trace (emit x s) = trace s @ [x]"
  by (simp_all add: emit_def)

lemma counters_emit [simp]:
  "checkpoints (emit x s) = checkpoints s + (if is_checkpoint x then 1 else 0)"
  "sgd_switches (emit x s) = sgd_switches s @ sgd_lr x"
  "updates (emit x s) = updates s + (if x = Update then 1 else 0)"
  by (simp_all add: checkpoints_def sgd_switches_def updates_def)

lemma counters_update [simp]:
  "checkpoints (s\<lparr>epoch := ep\<rparr>) = checkpoints s"
  "checkpoints (s\<lparr>step := st\<rparr>) = checkpoints s"
  "checkpoints (s\<lparr>cur_learning_rate := lr\<rparr>) = checkpoints s"
  "checkpoints (s\<lparr>metric_dev_best := b\<rparr>) = checkpoints s"
  "checkpoints (s\<lparr>not_improved_epoch := n\<rparr>) = checkpoints s"
  "sgd_switches (s\<lparr>epoch := ep\<rparr>) = sgd_switches s"
  "sgd_switches (s\<lparr>step := st\<rparr>) = sgd_switches s"
  "sgd_switches (s\<lparr>cur_learning_rate := lr\<rparr>) = sgd_switches s"
  "sgd_switches (s\<lparr>metric_dev_best := b\<rparr>) = sgd_switches s"
  "sgd_switches (s\<lparr>not_improved_epoch := n\<rparr>) = sgd_switches s"
  "updates (s\<lparr>epoch := ep\<rparr>) = updates s"
  "updates (s\<lparr>step := st\<rparr>) = updates s"
  "updates (s\<lparr>cur_learning_rate := lr\<rparr>) = updates s"
  "updates (s\<lparr>metric_dev_best := b\<rparr>) = updates s"
  "updates (s\<lparr>not_improved_epoch := n\<rparr>) = updates s"
  by (simp_all add: checkpoints_def sgd_switches_def updates_def)

lemma eval_tests_error:
  "fst (eval_tests ev xs s) = (if xs \<noteq> [] \<and> ev = Eval_char then Some TypeError else None)"
  by (induction xs arbitrary: s) (simp_all add: Let_def)

lemma eval_tests_fields:
  "epoch (snd (eval_tests ev xs s)) = epoch s \<and>
   step (snd (eval_tests ev xs s)) = step s \<and>
   cur_learning_rate (snd (eval_tests ev xs s)) = cur_learning_rate s \<and>
   metric_dev_best (snd (eval_tests ev xs s)) = metric_dev_best s \<and>
   not_improved_epoch (snd (eval_tests ev xs s)) = not_improved_epoch s \<and>
   checkpoints (snd (eval_tests ev xs s)) = checkpoints s \<and>
   sgd_switches (snd (eval_tests ev xs s)) = sgd_switches s \<and>
   updates (snd (eval_tests ev xs s)) = updates s"
  by (induction xs arbitrary: s) (simp_all add: Let_def)


lemma evaluate_error:
  "error_of (evaluate a e s) =
     (if select_evaluator (label_type a) = None then Some (ValueError (label_type a))
      else if metric_dev e < metric_dev_best s \<and> test_log_fails a then Some TypeError
      else None)"
  by (cases "select_evaluator (label_type a)")
     (auto simp: evaluate_def Let_def case_prod_beta eval_tests_error test_log_fails_def
           split: option.splits)

lemma evaluate_fields:
  "epoch (state_of (evaluate a e s)) = epoch s \<and>
   step (state_of (evaluate a e s)) = step s \<and>
   updates (state_of (evaluate a e s)) = updates s"
  by (cases "select_evaluator (label_type a)")
     (auto simp: evaluate_def Let_def case_prod_beta eval_tests_error eval_tests_fields
           split: option.splits)

lemma evaluate_counter:
  "select_evaluator (label_type a) \<noteq> None \<Longrightarrow>
   not_improved_epoch (state_of (evaluate a e s)) =
     (if metric_dev e < metric_dev_best s then 0 else not_improved_epoch s + 1)"
  by (cases "select_evaluator (label_type a)")
     (auto simp: evaluate_def Let_def case_prod_beta eval_tests_error eval_tests_fields
           split: option.splits)

lemma evaluate_exit:
  "exit_of (evaluate a e s) =
     (if error_of (evaluate a e s) = None \<and>
         not_improved_epoch (state_of (evaluate a e s)) = not_improved_patient_epoch a
      then Some Early_stop else None)"
  by (cases "select_evaluator (label_type a)")
     (auto simp: evaluate_def Let_def case_prod_beta eval_tests_error eval_tests_fields
           split: option.splits)

lemma evaluate_checkpoints:
  "checkpoints (state_of (evaluate a e s)) =
     checkpoints s +
       (if select_evaluator (label_type a) \<noteq> None \<and> metric_dev e < metric_dev_best s
        then 1 else 0)"
  by (cases "select_evaluator (label_type a)")
     (auto simp: evaluate_def Let_def case_prod_beta eval_tests_error eval_tests_fields
           split: option.splits)

lemma evaluate_sgd:
  "sgd_switches (state_of (evaluate a e s)) =
     sgd_switches s @
       (if error_of (evaluate a e s) = None \<and> exit_of (evaluate a e s) = None \<and>
           epoch s = convert_to_sgd_epoch a
        then [learning_rate a] else [])"
  by (cases "select_evaluator (label_type a)")
     (auto simp: evaluate_def Let_def case_prod_beta eval_tests_error eval_tests_fields
           split: option.splits)


lemma epoch_end_error:
  "error_of (epoch_end a e s) =
     (if epoch s < eval_start_epoch a then None
      else if select_evaluator (label_type a) = None then Some (ValueError (label_type a))
      else if metric_dev e < metric_dev_best s \<and> test_log_fails a then Some TypeError
      else None)"
  using evaluate_error [of a e "emit Reporter_epoch s"]
  by (cases "evaluate a e (emit Reporter_epoch s)")
     (auto simp: epoch_end_def Let_def split: if_splits)

lemma epoch_end_counter:
  "not_improved_epoch (state_of (epoch_end a e s)) =
     (if epoch s < eval_start_epoch a \<or> select_evaluator (label_type a) = None
      then not_improved_epoch s
      else if metric_dev e < metric_dev_best s then 0 else not_improved_epoch s + 1)"
proof (cases "select_evaluator (label_type a)")
  case None
  then show ?thesis by (simp add: epoch_end_def Let_def evaluate_def)
next
  case (Some ev)
  then show ?thesis
    using evaluate_counter [of a e "emit Reporter_epoch s"]
    by (cases "evaluate a e (emit Reporter_epoch s)")
       (auto simp: epoch_end_def Let_def split: if_splits)
qed

lemma epoch_end_exit:
  "exit_of (epoch_end a e s) =
     (if error_of (epoch_end a e s) \<noteq> None then None
      else if eval_start_epoch a \<le> epoch s \<and>
              not_improved_epoch (state_of (epoch_end a e s)) = not_improved_patient_epoch a
      then Some Early_stop
      else if epoch s = num_epochs a then Some Max_epoch
      else None)"
  using evaluate_exit [of a e "emit Reporter_epoch s"]
        evaluate_fields [of a e "emit Reporter_epoch s"]
  by (cases "evaluate a e (emit Reporter_epoch s)")
     (auto simp: epoch_end_def Let_def split: if_splits)

lemma epoch_end_checkpoints:
  "checkpoints (state_of (epoch_end a e s)) =
     checkpoints s +
       (if epoch s < eval_start_epoch a then 1
        else if select_evaluator (label_type a) \<noteq> None \<and> metric_dev e < metric_dev_best s
        then 1 else 0)"
  using evaluate_checkpoints [of a e "emit Reporter_epoch s"]
  by (cases "evaluate a e (emit Reporter_epoch s)")
     (auto simp: epoch_end_def Let_def split: if_splits)

lemma epoch_end_sgd:
  "sgd_switches (state_of (epoch_end a e s)) =
     sgd_switches s @
       (if eval_start_epoch a \<le> epoch s \<and> error_of (epoch_end a e s) = None \<and>
           exit_of (epoch_end a e s) \<noteq> Some Early_stop \<and> epoch s = convert_to_sgd_epoch a
        then [learning_rate a] else [])"
  using evaluate_sgd [of a e "emit Reporter_epoch s"]
        evaluate_exit [of a e "emit Reporter_epoch s"]
        evaluate_fields [of a e "emit Reporter_epoch s"]
  by (cases "evaluate a e (emit Reporter_epoch s)")
     (auto simp: epoch_end_def Let_def split: if_splits)

lemma epoch_end_fields:
  "epoch (state_of (epoch_end a e s)) =
     (if error_of (epoch_end a e s) = None \<and> exit_of (epoch_end a e s) = None
      then epoch s + 1 else epoch s) \<and>
   step (state_of (epoch_end a e s)) = step s \<and>
   updates (state_of (epoch_end a e s)) = updates s"
  using evaluate_fields [of a e "emit Reporter_epoch s"]
  by (cases "evaluate a e (emit Reporter_epoch s)")
     (auto simp: epoch_end_def Let_def split: if_splits)


lemma train_iter_unfold:
  assumes "print_step a \<noteq> 0"
  shows "\<exists>s3. train_iter a e s = (if is_new_epoch e then epoch_end a e s3 else Continue s3) \<and>
           epoch s3 = epoch s \<and> step s3 = step s + ngpus a \<and>
           metric_dev_best s3 = metric_dev_best s \<and>
           not_improved_epoch s3 = not_improved_epoch s \<and>
           checkpoints s3 = checkpoints s \<and> sgd_switches s3 = sgd_switches s \<and>
           updates s3 = updates s + 1"
proof -
  let ?s2 = "if (step s + 1) mod print_step a = 0
             then emit (Report (step s)) (emit Update s) else emit Update s"
  let ?s3 = "?s2\<lparr>step := step ?s2 + ngpus a\<rparr>"
  have "train_iter a e s = (if is_new_epoch e then epoch_end a e ?s3 else Continue ?s3)"
    using assms by (simp add: train_iter_def Let_def)
  moreover have "epoch ?s3 = epoch s" "step ?s3 = step s + ngpus a"
    "metric_dev_best ?s3 = metric_dev_best s" "not_improved_epoch ?s3 = not_improved_epoch s"
    "checkpoints ?s3 = checkpoints s" "sgd_switches ?s3 = sgd_switches s"
    "updates ?s3 = updates s + 1"
    by simp_all
  ultimately show ?thesis by blast
qed

lemma train_iter_zero_print_step:
  "print_step a = 0 \<Longrightarrow> train_iter a e s = Raise ZeroDivisionError (emit Update s)"
  by (simp add: train_iter_def Let_def)

lemma train_iter_step_updates:
  "updates (state_of (train_iter a e s)) = updates s + 1 \<and>
   step (state_of (train_iter a e s)) = (if print_step a = 0 then step s else step s + ngpus a)"
proof (cases "print_step a = 0")
  case True
  then show ?thesis by (simp add: train_iter_zero_print_step)
next
  case False
  from train_iter_unfold [OF False, of e s] obtain s3 where
    "train_iter a e s = (if is_new_epoch e then epoch_end a e s3 else Continue s3)"
    "step s3 = step s + ngpus a" "updates s3 = updates s + 1" by blast
  then show ?thesis using False epoch_end_fields [of a e s3] by simp
qed

lemma train_iter_error:
  "error_of (train_iter a e s) =
     (if print_step a = 0 then Some ZeroDivisionError
      else if \<not> is_new_epoch e \<or> epoch s < eval_start_epoch a then None
      else if select_evaluator (label_type a) = None then Some (ValueError (label_type a))
      else if metric_dev e < metric_dev_best s \<and> test_log_fails a then Some TypeError
      else None)"
proof (cases "print_step a = 0")
  case True
  then show ?thesis by (simp add: train_iter_zero_print_step)
next
  case False
  from train_iter_unfold [OF False, of e s] obtain s3 where
    "train_iter a e s = (if is_new_epoch e then epoch_end a e s3 else Continue s3)"
    "epoch s3 = epoch s" "metric_dev_best s3 = metric_dev_best s" by blast
  then show ?thesis using False epoch_end_error [of a e s3] by simp
qed

lemma train_iter_counter:
  "not_improved_epoch (state_of (train_iter a e s)) =
     (if print_step a = 0 \<or> \<not> is_new_epoch e \<or> epoch s < eval_start_epoch a \<or>
         select_evaluator (label_type a) = None
      then not_improved_epoch s
      else if metric_dev e < metric_dev_best s then 0 else not_improved_epoch s + 1)"
proof (cases "print_step a = 0")
  case True
  then show ?thesis by (simp add: train_iter_zero_print_step)
next
  case False
  from train_iter_unfold [OF False, of e s] obtain s3 where
    "train_iter a e s = (if is_new_epoch e then epoch_end a e s3 else Continue s3)"
    "epoch s3 = epoch s" "metric_dev_best s3 = metric_dev_best s"
    "not_improved_epoch s3 = not_improved_epoch s" by blast
  then show ?thesis using False epoch_end_counter [of a e s3] by simp
qed

lemma train_iter_exit:
  "exit_of (train_iter a e s) =
     (if \<not> is_new_epoch e \<or> error_of (train_iter a e s) \<noteq> None then None
      else if eval_start_epoch a \<le> epoch s \<and>
              not_improved_epoch (state_of (train_iter a e s)) = not_improved_patient_epoch a
      then Some Early_stop
      else if epoch s = num_epochs a then Some Max_epoch
      else None)"
proof (cases "print_step a = 0")
  case True
  then show ?thesis by (simp add: train_iter_zero_print_step)
next
  case False
  from train_iter_unfold [OF False, of e s] obtain s3 where
    "train_iter a e s = (if is_new_epoch e then epoch_end a e s3 else Continue s3)"
    "epoch s3 = epoch s" by blast
  then show ?thesis using False epoch_end_exit [of a e s3] by simp
qed

lemma train_iter_checkpoints:
  "checkpoints (state_of (train_iter a e s)) =
     checkpoints s +
       (if print_step a \<noteq> 0 \<and> is_new_epoch e \<and>
           (epoch s < eval_start_epoch a \<or>
            select_evaluator (label_type a) \<noteq> None \<and> metric_dev e < metric_dev_best s)
        then 1 else 0)"
proof (cases "print_step a = 0")
  case True
  then show ?thesis by (simp add: train_iter_zero_print_step)
next
  case False
  from train_iter_unfold [OF False, of e s] obtain s3 where
    "train_iter a e s = (if is_new_epoch e then epoch_end a e s3 else Continue s3)"
    "epoch s3 = epoch s" "metric_dev_best s3 = metric_dev_best s"
    "checkpoints s3 = checkpoints s" by blast
  then show ?thesis using False epoch_end_checkpoints [of a e s3] by auto
qed

lemma train_iter_sgd:
  "sgd_switches (state_of (train_iter a e s)) =
     sgd_switches s @
       (if is_new_epoch e \<and> eval_start_epoch a \<le> epoch s \<and>
           epoch s = convert_to_sgd_epoch a \<and> error_of (train_iter a e s) = None \<and>
           exit_of (train_iter a e s) \<noteq> Some Early_stop
        then [learning_rate a] else [])"
proof (cases "print_step a = 0")
  case True
  then show ?thesis by (simp add: train_iter_zero_print_step)
next
  case False
  from train_iter_unfold [OF False, of e s] obtain s3 where
    "train_iter a e s = (if is_new_epoch e then epoch_end a e s3 else Continue s3)"
    "epoch s3 = epoch s" "sgd_switches s3 = sgd_switches s" by blast
  then show ?thesis using False epoch_end_sgd [of a e s3] by simp
qed

lemma train_iter_epoch:
  "epoch (state_of (train_iter a e s)) =
     (if is_new_epoch e \<and> error_of (train_iter a e s) = None \<and>
         exit_of (train_iter a e s) = None
      then epoch s + 1 else epoch s)"
proof (cases "print_step a = 0")
  case True
  then show ?thesis by (simp add: train_iter_zero_print_step)
next
  case False
  from train_iter_unfold [OF False, of e s] obtain s3 where
    "train_iter a e s = (if is_new_epoch e then epoch_end a e s3 else Continue s3)"
    "epoch s3 = epoch s" by blast
  then show ?thesis using False epoch_end_fields [of a e s3] by simp
qed

lemma outcome_Continue_iff:
  "(\<exists>s'. r = Continue s') \<longleftrightarrow> error_of r = None \<and> exit_of r = None"
  by (cases r) simp_all

subsection \<open>What a run does\<close>

lemma train_prologue_fields:
  "label_type (train_prologue a) = label_type a \<and>
   learning_rate (train_prologue a) = learning_rate a \<and>
   saved_model (train_prologue a) = saved_model a"
  by (simp add: train_prologue_def)

lemma train_prologue_ngpus: "ngpus (train_prologue a) = ngpus a"
  by (simp add: train_prologue_def)

lemma init_state_step: "step (init_state a) = 0"
  by (simp add: init_state_def)

lemma init_state_counters:
  "updates (init_state a) = 0 \<and> sgd_switches (init_state a) = [] \<and>
   checkpoints (init_state a) = 0"
  by (simp add: init_state_def updates_def sgd_switches_def checkpoints_def)

lemma train_loop_step:
  assumes "print_step a \<noteq> 0"
  shows "step (state_of (train_loop a es s)) - step s =
           ngpus a * (updates (state_of (train_loop a es s)) - updates s)"
proof (induction es arbitrary: s)
  case Nil
  show ?case by simp
next
  case (Cons e es)
  have it: "updates (state_of (train_iter a e s)) = updates s + 1"
           "step (state_of (train_iter a e s)) = step s + ngpus a"
    using train_iter_step_updates [of a e s] assms by simp_all
  show ?case
  proof (cases "train_iter a e s")
    case (Continue s')
    with it have s': "updates s' = updates s + 1" "step s' = step s + ngpus a" by simp_all
    from Cons.IH [of s'] s' Continue show ?thesis by (simp add: algebra_simps)
  next
    case (Break x s')
    with it show ?thesis by simp
  next
    case (Raise err s')
    with it show ?thesis by simp
  qed
qed

lemma train_loop_ValueError:
  assumes "error_of (train_loop a es s) = Some (ValueError v)"
  shows "v = label_type a \<and> select_evaluator (label_type a) = None \<and>
         updates s + 1 \<le> updates (state_of (train_loop a es s))"
  using assms
proof (induction es arbitrary: s)
  case Nil
  then show ?case by simp
next
  case (Cons e es)
  have up: "updates (state_of (train_iter a e s)) = updates s + 1"
    using train_iter_step_updates [of a e s] by simp
  show ?case
  proof (cases "train_iter a e s")
    case (Continue s')
    with up have "updates s' = updates s + 1" by simp
    moreover from Cons.prems Continue
    have "error_of (train_loop a es s') = Some (ValueError v)" by simp
    ultimately show ?thesis using Cons.IH [of s'] Continue by simp
  next
    case (Break x s')
    with Cons.prems show ?thesis by simp
  next
    case (Raise err s')
    with Cons.prems have err: "error_of (train_iter a e s) = Some (ValueError v)" by simp
    then have "v = label_type a \<and> select_evaluator (label_type a) = None"
      by (simp add: train_iter_error split: if_splits)
    then show ?thesis using up Raise by simp
  qed
qed

lemma train_loop_sgd:
  assumes "sgd_switches s = [] \<or>
           sgd_switches s = [learning_rate a] \<and> convert_to_sgd_epoch a < epoch s"
  shows "sgd_switches (state_of (train_loop a es s)) = [] \<or>
         sgd_switches (state_of (train_loop a es s)) = [learning_rate a]"
  using assms
proof (induction es arbitrary: s)
  case Nil
  then show ?case by auto
next
  case (Cons e es)
  note sgd = train_iter_sgd [of a e s]
  note ep = train_iter_epoch [of a e s]
  show ?case
  proof (cases "train_iter a e s")
    case (Continue s')
    have "sgd_switches s' = [] \<or>
          sgd_switches s' = [learning_rate a] \<and> convert_to_sgd_epoch a < epoch s'"
      using Cons.prems sgd ep Continue by (auto split: if_splits)
    from Cons.IH [OF this] Continue show ?thesis by simp
  next
    case (Break x s')
    then show ?thesis using Cons.prems sgd by (auto split: if_splits)
  next
    case (Raise err s')
    then show ?thesis using Cons.prems sgd by (auto split: if_splits)
  qed
qed

subsection \<open>The multi-device adjustment\<close>

text \<open>
  Claim C10: if \<open>ngpus > 1\<close>, \<^verbatim>\<open>train\<close> lowers the batch size by exactly 10 and replaces
  the print interval by its integer quotient by \<open>ngpus\<close>, and leaves every other setting
  alone; if \<open>ngpus \<le> 1\<close> the configuration is unchanged. The adjustment comes first:
  everything \<^verbatim>\<open>train\<close> does afterwards uses the adjusted configuration.
\<close>

theorem train_prologue_multi_gpu:
  "(1 < ngpus a \<longrightarrow>
      train_prologue a = a\<lparr>batch_size := batch_size a - 10,
                            print_step := print_step a div ngpus a\<rparr>) \<and>
   (ngpus a \<le> 1 \<longrightarrow> train_prologue a = a) \<and>
   train a es =
     (if saved_model a \<noteq> None
      then Raise (UnboundLocalError ''epoch'') (init_state (train_prologue a))
      else train_loop (train_prologue a) es (init_state (train_prologue a)))"
  by (auto simp: train_prologue_def train_def Let_def)

theorem train_prologue_multi_gpu_witness:
  "((1::int) < ngpus (example_args\<lparr>ngpus := 2\<rparr>) \<and>
      train_prologue (example_args\<lparr>ngpus := 2\<rparr>) =
        example_args\<lparr>ngpus := 2, batch_size := 22, print_step := 50\<rparr>) \<and>
   (ngpus example_args \<le> 1 \<and> train_prologue example_args = example_args)"
  using train_prologue_multi_gpu [of "example_args\<lparr>ngpus := 2\<rparr>" "[]"]
        train_prologue_multi_gpu [of example_args "[]"]
  by (simp add: example_args_def)


subsection \<open>Checkpoints\<close>

text \<open>
  Claim C2 says that once the epoch counter has reached \<open>eval_start_epoch\<close> a checkpoint is
  written after every completed epoch, whether or not the dev metric improved. In the code
  the only \<^verbatim>\<open>save_checkpoint\<close> of the evaluation branch sits inside
  \<^verbatim>\<open>if metric_dev < metric_dev_best\<close>. With \<open>eval_start_epoch = 1\<close>, dev metrics 50 and
  then 60: epoch 1 is saved, epoch 2 is not.
\<close>

theorem checkpoint_every_epoch_counterexample:
  "eval_start_epoch example_args = 1 \<and>
   train example_args [example_event True 50, example_event True 60] =
     Continue \<lparr>epoch = 3, step = 2, cur_learning_rate = 1 / 1000, metric_dev_best = 50,
               not_improved_epoch = 1,
               trace = [Update, Reporter_epoch, Eval_dev Eval_word, Decay_lr 1 50,
                        Save_checkpoint 1 1 (1 / 1000) 50,
                        Update, Reporter_epoch, Eval_dev Eval_word, Decay_lr 2 60]\<rparr> \<and>
   checkpoints (state_of (train example_args [example_event True 50, example_event True 60])) = 1"
  by (simp add: example_args_def example_event_def train_def train_prologue_def init_state_def
      train_iter_def epoch_end_def evaluate_def select_evaluator_def built_eval_sets_def
      emit_def Let_def checkpoints_def)

text \<open>
  Claim C2, amended: at an epoch boundary the loop writes exactly one checkpoint if the
  epoch counter is below \<open>eval_start_epoch\<close>, or if it is at or past it, the label type is
  recognized and the dev metric is strictly better than the best recorded value; it
  writes none on an evaluated epoch without improvement, and none between epoch
  boundaries.
\<close>

theorem checkpoint_policy:
  "checkpoints (state_of (train_iter a e s)) =
     checkpoints s +
       (if print_step a \<noteq> 0 \<and> is_new_epoch e \<and>
           (epoch s < eval_start_epoch a \<or>
            select_evaluator (label_type a) \<noteq> None \<and> metric_dev e < metric_dev_best s)
        then 1 else 0)"
  by (rule train_iter_checkpoints)

theorem checkpoint_policy_witness:
  "checkpoints (state_of (train_iter example_args (example_event True 50)
                            (init_state example_args))) = 1 \<and>
   checkpoints (state_of (train_iter example_args (example_event True 100)
                            (init_state example_args))) = 0 \<and>
   checkpoints (state_of (train_iter (example_args\<lparr>eval_start_epoch := 2\<rparr>)
                            (example_event True 100)
                            (init_state (example_args\<lparr>eval_start_epoch := 2\<rparr>)))) = 1"
  using checkpoint_policy [of example_args "example_event True 50" "init_state example_args"]
        checkpoint_policy [of example_args "example_event True 100" "init_state example_args"]
        checkpoint_policy [of "example_args\<lparr>eval_start_epoch := 2\<rparr>" "example_event True 100"
                              "init_state (example_args\<lparr>eval_start_epoch := 2\<rparr>)"]
  by (simp add: example_args_def example_event_def init_state_def checkpoints_def
      select_evaluator_def)

subsection \<open>The step counter\<close>

text \<open>
  Claim C3 says that for every number of devices the step counter grows by one per
  optimizer update. The code adds \<^verbatim>\<open>args.ngpus\<close>: with two devices a single update takes
  the counter from 0 to 2.
\<close>

theorem step_once_per_update_counterexample:
  "train (example_args\<lparr>ngpus := 2\<rparr>) [example_event False 0] =
     Continue \<lparr>epoch = 1, step = 2, cur_learning_rate = 1 / 1000, metric_dev_best = 100,
               not_improved_epoch = 0, trace = [Update]\<rparr> \<and>
   updates (state_of (train (example_args\<lparr>ngpus := 2\<rparr>) [example_event False 0])) = 1 \<and>
   step (state_of (train (example_args\<lparr>ngpus := 2\<rparr>) [example_event False 0])) = 2"
  by (simp add: example_args_def example_event_def train_def train_prologue_def init_state_def
      train_iter_def emit_def Let_def updates_def)

text \<open>
  Claim C3, amended: in a run whose print interval is not 0 (after the multi-device
  adjustment), every iteration of the loop performs one optimizer update and adds
  \<open>ngpus\<close> to the step counter, so at any point of the run the counter equals \<open>ngpus\<close>
  times the number of updates made; it is strictly increasing when \<open>ngpus \<ge> 1\<close> and counts
  the updates exactly when \<open>ngpus = 1\<close>.
\<close>

theorem step_advances_by_ngpus:
  "(print_step a \<noteq> 0 \<longrightarrow>
      updates (state_of (train_iter a e s)) = updates s + 1 \<and>
      step (state_of (train_iter a e s)) = step s + ngpus a \<and>
      (1 \<le> ngpus a \<longrightarrow> step s < step (state_of (train_iter a e s))) \<and>
      step (state_of (train_loop a es s)) - step s =
        ngpus a * (updates (state_of (train_loop a es s)) - updates s)) \<and>
   (print_step (train_prologue a) \<noteq> 0 \<longrightarrow>
      step (state_of (train a es)) = ngpus a * updates (state_of (train a es)))"
proof -
  have iter: "print_step a \<noteq> 0 \<longrightarrow>
      updates (state_of (train_iter a e s)) = updates s + 1 \<and>
      step (state_of (train_iter a e s)) = step s + ngpus a \<and>
      (1 \<le> ngpus a \<longrightarrow> step s < step (state_of (train_iter a e s))) \<and>
      step (state_of (train_loop a es s)) - step s =
        ngpus a * (updates (state_of (train_loop a es s)) - updates s)"
    using train_iter_step_updates [of a e s] train_loop_step [of a es s] by simp
  have run: "print_step (train_prologue a) \<noteq> 0 \<longrightarrow>
      step (state_of (train a es)) = ngpus a * updates (state_of (train a es))"
  proof (rule impI)
    assume ps: "print_step (train_prologue a) \<noteq> 0"
    let ?a = "train_prologue a"
    show "step (state_of (train a es)) = ngpus a * updates (state_of (train a es))"
    proof (cases "saved_model ?a")
      case None
      then have t: "train a es = train_loop ?a es (init_state ?a)"
        by (simp add: train_def Let_def)
      from train_loop_step [OF ps, of es "init_state ?a"] t show ?thesis
        by (simp add: init_state_step init_state_counters train_prologue_ngpus)
    next
      case (Some x)
      then have "train a es = Raise (UnboundLocalError ''epoch'') (init_state ?a)"
        by (simp add: train_def Let_def)
      then show ?thesis by (simp add: init_state_step init_state_counters)
    qed
  qed
  from iter run show ?thesis by (rule conjI)
qed

theorem step_advances_by_ngpus_witness:
  "(print_step (example_args\<lparr>ngpus := 2\<rparr>) \<noteq> 0 \<and>
    updates (state_of (train_iter (example_args\<lparr>ngpus := 2\<rparr>) (example_event False 0)
                         (init_state example_args))) = 1 \<and>
    step (state_of (train_iter (example_args\<lparr>ngpus := 2\<rparr>) (example_event False 0)
                      (init_state example_args))) = 2) \<and>
   (print_step (train_prologue (example_args\<lparr>ngpus := 2\<rparr>)) \<noteq> 0 \<and>
    step (state_of (train (example_args\<lparr>ngpus := 2\<rparr>)
                      [example_event False 0, example_event False 0])) =
      2 * updates (state_of (train (example_args\<lparr>ngpus := 2\<rparr>)
                      [example_event False 0, example_event False 0])))"
proof -
  let ?a = "example_args\<lparr>ngpus := 2\<rparr>"
  have h1: "print_step ?a \<noteq> 0" by (simp add: example_args_def)
  have h2: "print_step (train_prologue ?a) \<noteq> 0"
    by (simp add: example_args_def train_prologue_def)
  have n: "ngpus ?a = 2" by simp
  from step_advances_by_ngpus [of ?a "example_event False 0" "init_state example_args"
         "[example_event False 0, example_event False 0]"] h1 h2 n
       init_state_counters [of example_args] init_state_step [of example_args]
  show ?thesis by simp
qed

subsection \<open>Early stopping\<close>

text \<open>
  Claim C4 says that the loop terminates exactly when the non-improvement counter first
  equals \<open>not_improved_patient_epoch\<close>. The loop also ends when the epoch counter equals
  \<open>num_epochs\<close>: with \<open>num_epochs = 1\<close> and patience 5 it ends after an improving first
  epoch with the counter at 0.
\<close>

theorem early_stop_only_exit_counterexample:
  "not_improved_patient_epoch (example_args\<lparr>num_epochs := 1\<rparr>) = 5 \<and>
   train (example_args\<lparr>num_epochs := 1\<rparr>) [example_event True 50] =
     Break Max_epoch
       \<lparr>epoch = 1, step = 1, cur_learning_rate = 1 / 1000, metric_dev_best = 50,
        not_improved_epoch = 0,
        trace = [Update, Reporter_epoch, Eval_dev Eval_word, Decay_lr 1 50,
                 Save_checkpoint 1 1 (1 / 1000) 50]\<rparr>"
  by (simp add: example_args_def example_event_def train_def train_prologue_def init_state_def
      train_iter_def epoch_end_def evaluate_def select_evaluator_def built_eval_sets_def
      emit_def Let_def)

text \<open>
  Claim C4, amended: at every epoch boundary at which the validation evaluation runs and
  completes, the non-improvement counter becomes 0 if the dev metric is strictly better
  than the best so far and grows by exactly 1 otherwise; the loop stops early at that
  boundary exactly when the updated counter equals \<open>not_improved_patient_epoch\<close>, and
  otherwise it ends there exactly when the epoch counter equals \<open>num_epochs\<close>.
\<close>

theorem non_improvement_counter:
  assumes "print_step a \<noteq> 0" and "is_new_epoch e" and "eval_start_epoch a \<le> epoch s"
    and "select_evaluator (label_type a) \<noteq> None"
    and "\<not> (metric_dev e < metric_dev_best s \<and> test_log_fails a)"
  shows "not_improved_epoch (state_of (train_iter a e s)) =
           (if metric_dev e < metric_dev_best s then 0 else not_improved_epoch s + 1) \<and>
         error_of (train_iter a e s) = None \<and>
         exit_of (train_iter a e s) =
           (if not_improved_epoch (state_of (train_iter a e s)) = not_improved_patient_epoch a
            then Some Early_stop
            else if epoch s = num_epochs a then Some Max_epoch
            else None)"
proof -
  have c: "not_improved_epoch (state_of (train_iter a e s)) =
           (if metric_dev e < metric_dev_best s then 0 else not_improved_epoch s + 1)"
    using assms by (auto simp: train_iter_counter)
  have er: "error_of (train_iter a e s) = None"
    using assms by (auto simp: train_iter_error)
  have "exit_of (train_iter a e s) =
           (if not_improved_epoch (state_of (train_iter a e s)) = not_improved_patient_epoch a
            then Some Early_stop
            else if epoch s = num_epochs a then Some Max_epoch
            else None)"
    using assms(2,3) er train_iter_exit [of a e s] by simp
  with c er show ?thesis by blast
qed

theorem non_improvement_counter_witness:
  "print_step example_args \<noteq> 0 \<and> is_new_epoch (example_event True 70) \<and>
   eval_start_epoch example_args \<le> epoch ((init_state example_args)\<lparr>metric_dev_best := 60, not_improved_epoch := 4\<rparr>) \<and>
   select_evaluator (label_type example_args) \<noteq> None \<and>
   \<not> (metric_dev (example_event True 70) < metric_dev_best ((init_state example_args)\<lparr>metric_dev_best := 60, not_improved_epoch := 4\<rparr>) \<and> test_log_fails example_args) \<and>
   not_improved_epoch (state_of (train_iter example_args (example_event True 70)
      ((init_state example_args)\<lparr>metric_dev_best := 60, not_improved_epoch := 4\<rparr>))) = 5 \<and>
   exit_of (train_iter example_args (example_event True 70)
      ((init_state example_args)\<lparr>metric_dev_best := 60, not_improved_epoch := 4\<rparr>)) = Some Early_stop"
proof -
  let ?s = "(init_state example_args)\<lparr>metric_dev_best := 60, not_improved_epoch := 4\<rparr>"
  let ?e = "example_event True 70"
  have h1: "print_step example_args \<noteq> 0" by (simp add: example_args_def)
  have h2: "is_new_epoch ?e" by (simp add: example_event_def)
  have h3: "eval_start_epoch example_args \<le> epoch ?s"
    by (simp add: example_args_def init_state_def)
  have h4: "select_evaluator (label_type example_args) \<noteq> None"
    by (simp add: example_args_def select_evaluator_def)
  have h5: "\<not> (metric_dev ?e < metric_dev_best ?s \<and> test_log_fails example_args)"
    by (simp add: example_event_def)
  from non_improvement_counter [OF h1 h2 h3 h4 h5] h1 h2 h3 h4 h5
  show ?thesis by (simp add: example_args_def example_event_def init_state_def)
qed

subsection \<open>Unknown label types\<close>

text \<open>
  The check of the label type that \<^verbatim>\<open>train\<close> makes itself is the final \<^verbatim>\<open>else\<close> of the
  evaluation branch (line 370): taken alone, it raises the \<^verbatim>\<open>ValueError\<close> carrying the
  label type at the first epoch boundary at or past \<open>eval_start_epoch\<close>, after at least
  one update. It is the second line of defence behind the construction phase.
\<close>

lemma loop_dispatch_unknown_label_type:
  "(select_evaluator (label_type a) = None \<and> print_step a \<noteq> 0 \<longrightarrow>
      error_of (train_iter a e s) =
        (if is_new_epoch e \<and> eval_start_epoch a \<le> epoch s
         then Some (ValueError (label_type a)) else None)) \<and>
   (error_of (train a es) = Some (ValueError v) \<longrightarrow>
      v = label_type a \<and> select_evaluator (label_type a) = None \<and>
      1 \<le> updates (state_of (train a es)))"
proof -
  have first: "select_evaluator (label_type a) = None \<and> print_step a \<noteq> 0 \<longrightarrow>
      error_of (train_iter a e s) =
        (if is_new_epoch e \<and> eval_start_epoch a \<le> epoch s
         then Some (ValueError (label_type a)) else None)"
    by (auto simp: train_iter_error)
  have second: "error_of (train a es) = Some (ValueError v) \<longrightarrow>
      v = label_type a \<and> select_evaluator (label_type a) = None \<and>
      1 \<le> updates (state_of (train a es))"
  proof (rule impI)
    assume h: "error_of (train a es) = Some (ValueError v)"
    let ?a = "train_prologue a"
    from h have sm: "saved_model ?a = None"
      by (cases "saved_model ?a") (simp_all add: train_def Let_def)
    then have t: "train a es = train_loop ?a es (init_state ?a)"
      by (simp add: train_def Let_def)
    with h have "error_of (train_loop ?a es (init_state ?a)) = Some (ValueError v)" by simp
    from train_loop_ValueError [OF this] t
    show "v = label_type a \<and> select_evaluator (label_type a) = None \<and>
          1 \<le> updates (state_of (train a es))"
      by (simp add: train_prologue_fields init_state_counters)
  qed
  from first second show ?thesis by (rule conjI)
qed



subsection \<open>The switch to SGD\<close>

text \<open>
  Claim C6 says that for every configuration the optimizer is swapped when the epoch
  counter reaches \<open>convert_to_sgd_epoch\<close>. The swap sits in the evaluation branch: with
  \<open>eval_start_epoch = 3\<close> and \<open>convert_to_sgd_epoch = 2\<close> the run passes epoch 2 and
  reaches epoch 4 without any swap.
\<close>

theorem sgd_switch_whenever_epoch_reached_counterexample:
  "train (example_args\<lparr>eval_start_epoch := 3, convert_to_sgd_epoch := 2\<rparr>)
     [example_event True 50, example_event True 50, example_event True 50] =
     Continue \<lparr>epoch = 4, step = 3, cur_learning_rate = 1 / 1000, metric_dev_best = 50,
               not_improved_epoch = 0,
               trace = [Update, Reporter_epoch, Save_checkpoint 1 1 (1 / 1000) 100,
                        Update, Reporter_epoch, Save_checkpoint 2 2 (1 / 1000) 100,
                        Update, Reporter_epoch, Eval_dev Eval_word, Decay_lr 3 50,
                        Save_checkpoint 3 3 (1 / 1000) 50]\<rparr> \<and>
   sgd_switches (state_of (train (example_args\<lparr>eval_start_epoch := 3, convert_to_sgd_epoch := 2\<rparr>)
     [example_event True 50, example_event True 50, example_event True 50])) = []"
  by (simp add: example_args_def example_event_def train_def train_prologue_def init_state_def
      train_iter_def epoch_end_def evaluate_def select_evaluator_def built_eval_sets_def
      emit_def Let_def sgd_switches_def)

text \<open>
  Claim C6, amended: the loop swaps the optimizer to SGD at the configured learning rate
  at an epoch boundary exactly when the epoch counter equals \<open>convert_to_sgd_epoch\<close>, is at
  or past \<open>eval_start_epoch\<close>, the evaluation of that epoch completes and early stopping
  does not fire there; in any run of \<^verbatim>\<open>train\<close> the swap happens at most once.
\<close>

theorem sgd_switch_at_most_once:
  "sgd_switches (state_of (train_iter a e s)) =
     sgd_switches s @
       (if print_step a \<noteq> 0 \<and> is_new_epoch e \<and> eval_start_epoch a \<le> epoch s \<and>
           epoch s = convert_to_sgd_epoch a \<and>
           select_evaluator (label_type a) \<noteq> None \<and>
           \<not> (metric_dev e < metric_dev_best s \<and> test_log_fails a) \<and>
           (if metric_dev e < metric_dev_best s then 0 else not_improved_epoch s + 1)
             \<noteq> not_improved_patient_epoch a
        then [learning_rate a] else []) \<and>
   (sgd_switches (state_of (train a es)) = [] \<or>
    sgd_switches (state_of (train a es)) = [learning_rate a])"
proof
  show "sgd_switches (state_of (train_iter a e s)) =
     sgd_switches s @
       (if print_step a \<noteq> 0 \<and> is_new_epoch e \<and> eval_start_epoch a \<le> epoch s \<and>
           epoch s = convert_to_sgd_epoch a \<and>
           select_evaluator (label_type a) \<noteq> None \<and>
           \<not> (metric_dev e < metric_dev_best s \<and> test_log_fails a) \<and>
           (if metric_dev e < metric_dev_best s then 0 else not_improved_epoch s + 1)
             \<noteq> not_improved_patient_epoch a
        then [learning_rate a] else [])"
    using train_iter_sgd [of a e s] train_iter_exit [of a e s] train_iter_counter [of a e s]
          train_iter_error [of a e s]
    by (auto split: if_splits)
next
  let ?a = "train_prologue a"
  have "sgd_switches (state_of (train_loop ?a es (init_state ?a))) = [] \<or>
        sgd_switches (state_of (train_loop ?a es (init_state ?a))) = [learning_rate ?a]"
    by (rule train_loop_sgd) (simp add: init_state_counters)
  then show "sgd_switches (state_of (train a es)) = [] \<or>
        sgd_switches (state_of (train a es)) = [learning_rate a]"
    by (auto simp: train_def Let_def train_prologue_fields init_state_counters)
qed

theorem sgd_switch_at_most_once_witness:
  "sgd_switches (state_of (train_iter (example_args\<lparr>convert_to_sgd_epoch := 1\<rparr>)
      (example_event True 50) (init_state example_args))) = [1 / 1000] \<and>
   sgd_switches (state_of (train (example_args\<lparr>convert_to_sgd_epoch := 1\<rparr>)
      [example_event True 50, example_event True 40])) = [1 / 1000]"
proof -
  let ?a = "example_args\<lparr>convert_to_sgd_epoch := 1\<rparr>"
  have n: "sgd_switches (state_of (train ?a [example_event True 50, example_event True 40]))
             \<noteq> []"
    by (simp add: example_args_def example_event_def train_def train_prologue_def
        init_state_def train_iter_def epoch_end_def evaluate_def select_evaluator_def
        built_eval_sets_def emit_def Let_def sgd_switches_def)
  from sgd_switch_at_most_once [of ?a "example_event True 50" "init_state example_args"
         "[example_event True 50, example_event True 40]"] n
       init_state_counters [of example_args]
  show ?thesis
    by (simp add: example_args_def example_event_def init_state_def
        select_evaluator_def test_log_fails_def)
qed

end
